theory Spec2Isabelle
  imports Complex_Main "HOL-Library.Word"
begin

section \<open>Data model of atlas.py\<close>

text \<open>
  A 3D numpy array is modelled by its shape \<open>(nx, ny, nz)\<close> together with its content, a
  function of the voxel index. Only indices inside the shape are ever read. The masks that
  \<open>similarity\<close> receives are two slices \<open>label_mask[o, t, :, :, :]\<close> of one 5D array, so
  they share one shape; the shape is therefore passed once. numpy's float64 arithmetic is
  modelled by the reals, with \<open>nan\<close> as a value of its own.
\<close>

type_synonym voxel = "nat \<times> nat \<times> nat"
type_synonym shape = "nat \<times> nat \<times> nat"
type_synonym mask = "voxel \<Rightarrow> bool"
type_synonym spacing = "real \<times> real \<times> real"

datatype pyfloat = NaN | Fin real

datatype py_error = SysExit nat | ValueError | IndexError

text \<open>All indices of an array of the given shape, in row-major (C) order: the order in which
  \<open>np.nonzero\<close> lists them.\<close>

definition indices :: "shape \<Rightarrow> voxel list" where
  "indices sh = (case sh of (nx, ny, nz) \<Rightarrow>
     [(x, y, z). x \<leftarrow> [0..<nx], y \<leftarrow> [0..<ny], z \<leftarrow> [0..<nz]])"

text \<open>\<open>np.sum\<close> of a boolean array: the number of True voxels.\<close>

definition np_sum :: "shape \<Rightarrow> mask \<Rightarrow> nat" where
  "np_sum sh m = length (filter m (indices sh))"

text \<open>\<open>np.nonzero\<close> of a boolean array: the coordinates of the True voxels.\<close>

definition np_nonzero :: "shape \<Rightarrow> mask \<Rightarrow> voxel list" where
  "np_nonzero sh m = filter m (indices sh)"

text \<open>\<open>np.min\<close> and \<open>np.max\<close> of a 1D float array. numpy raises on an empty array; both
  are only called under the guard \<open>nA > 0 and nB > 0\<close> of \<open>hausdorff_distance\<close>, and the
  empty case is left without an equation.\<close>

fun np_min :: "real list \<Rightarrow> real" where
  "np_min (x # xs) = fold min xs x"

fun np_max :: "real list \<Rightarrow> real" where
  "np_max (x # xs) = fold max xs x"

subsection \<open>surface_voxels\<close>

text \<open>
  \<open>scipy.ndimage.binary_erosion(x, structure=np.ones([3,3,3]), iterations=1)\<close> is a library
  call. It is modelled from the library's documented behaviour: an output voxel is True iff
  every voxel under the 3x3x3 structuring element centred on it is True in the input, where
  positions outside the array count as \<open>border_value\<close>, whose default is 0 (False).
\<close>

definition structure_offsets :: "(int \<times> int \<times> int) list" where
  "structure_offsets = [(dx, dy, dz). dx \<leftarrow> [-1, 0, 1], dy \<leftarrow> [-1, 0, 1], dz \<leftarrow> [-1, 0, 1]]"

definition neighbours :: "voxel \<Rightarrow> (int \<times> int \<times> int) list" where
  "neighbours p = (case p of (x, y, z) \<Rightarrow>
     map (\<lambda>(dx, dy, dz). (int x + dx, int y + dy, int z + dz)) structure_offsets)"

definition at_or_border :: "shape \<Rightarrow> mask \<Rightarrow> int \<times> int \<times> int \<Rightarrow> bool" where
  "at_or_border sh m q = (case sh of (nx, ny, nz) \<Rightarrow> case q of (i, j, k) \<Rightarrow>
     (if 0 \<le> i \<and> i < int nx \<and> 0 \<le> j \<and> j < int ny \<and> 0 \<le> k \<and> k < int nz
      then m (nat i, nat j, nat k) else False))"

definition binary_erosion :: "shape \<Rightarrow> mask \<Rightarrow> mask" where
  "binary_erosion sh m = (\<lambda>p. list_all (at_or_border sh m) (neighbours p))"

definition np_logical_xor :: "mask \<Rightarrow> mask \<Rightarrow> mask" where
  "np_logical_xor a b = (\<lambda>p. a p \<noteq> b p)"

definition np_logical_and :: "mask \<Rightarrow> mask \<Rightarrow> mask" where
  "np_logical_and a b = (\<lambda>p. a p \<and> b p)"

definition np_logical_or :: "mask \<Rightarrow> mask \<Rightarrow> mask" where
  "np_logical_or a b = (\<lambda>p. a p \<or> b p)"

definition surface_voxels :: "shape \<Rightarrow> mask \<Rightarrow> mask" where
  "surface_voxels sh x = (let x_eroded = binary_erosion sh x in np_logical_xor x x_eroded)"

subsection \<open>hausdorff_distance\<close>

text \<open>One entry of \<open>np.sqrt(dx**2 + dy**2 + dz**2)\<close>: the index differences are signed
  integers, each scaled by the voxel dimension of its axis.\<close>

definition dr :: "spacing \<Rightarrow> voxel \<Rightarrow> voxel \<Rightarrow> real" where
  "dr vox_mm a b = (case vox_mm of (v0, v1, v2) \<Rightarrow> case a of (xa, ya, za) \<Rightarrow>
     case b of (xb, yb, zb) \<Rightarrow>
       (let dx = real_of_int (int xa - int xb) * v0;
            dy = real_of_int (int ya - int yb) * v1;
            dz = real_of_int (int za - int zb) * v2
        in sqrt (dx\<^sup>2 + dy\<^sup>2 + dz\<^sup>2)))"

definition hausdorff_distance :: "shape \<Rightarrow> mask \<Rightarrow> mask \<Rightarrow> spacing \<Rightarrow> pyfloat" where
  "hausdorff_distance sh A B vox_mm =
     (let sA = surface_voxels sh A;
          sB = surface_voxels sh B;
          pA = np_nonzero sh sA;
          pB = np_nonzero sh sB;
          nA = length pA;
          nB = length pB
      in if nA > 0 \<and> nB > 0
         then (let min_dr = map (\<lambda>a. np_min (map (\<lambda>b. dr vox_mm a b) pB)) pA
               in Fin (np_max min_dr))
         else NaN)"

subsection \<open>similarity\<close>

record similarity_result =
  dice :: pyfloat
  haus :: pyfloat
  na :: nat
  nb :: nat

definition similarity :: "shape \<Rightarrow> mask \<Rightarrow> mask \<Rightarrow> spacing \<Rightarrow> similarity_result" where
  "similarity sh mask_a mask_b vox_mm =
     (let na = np_sum sh mask_a; nb = np_sum sh mask_b
      in if na > 0 \<or> nb > 0
         then (let a_and_b = np_logical_and mask_a mask_b;
                   a_or_b = np_logical_or mask_a mask_b;
                   n_a_and_b = np_sum sh a_and_b;
                   n_a_or_b = np_sum sh a_or_b
               in \<lparr>dice = Fin (2 * real n_a_and_b / real (na + nb)),
                   haus = hausdorff_distance sh mask_a mask_b vox_mm,
                   na = na, nb = nb\<rparr>)
         else \<lparr>dice = NaN, haus = NaN, na = na, nb = nb\<rparr>)"

text \<open>The claims about \<open>similarity\<close> are stated against the following reference notions:
  the value of the Dice coefficient, the set of surface voxels of a mask, the physical
  distance of two voxels, and the directed Hausdorff distance between two voxel sets.\<close>

definition in_grid :: "shape \<Rightarrow> voxel \<Rightarrow> bool" where
  "in_grid sh p = (case sh of (nx, ny, nz) \<Rightarrow> case p of (x, y, z) \<Rightarrow> x < nx \<and> y < ny \<and> z < nz)"

definition dice_value :: "shape \<Rightarrow> mask \<Rightarrow> mask \<Rightarrow> real" where
  "dice_value sh A B =
     2 * real (np_sum sh (\<lambda>p. A p \<and> B p)) / real (np_sum sh A + np_sum sh B)"

definition surface_set :: "shape \<Rightarrow> mask \<Rightarrow> voxel set" where
  "surface_set sh m = {p. in_grid sh p \<and> surface_voxels sh m p}"

definition euclid_mm :: "spacing \<Rightarrow> voxel \<Rightarrow> voxel \<Rightarrow> real" where
  "euclid_mm v a b = (case v of (v0, v1, v2) \<Rightarrow> case a of (xa, ya, za) \<Rightarrow>
     case b of (xb, yb, zb) \<Rightarrow>
       sqrt (((real xa - real xb) * v0)\<^sup>2 + ((real ya - real yb) * v1)\<^sup>2 +
             ((real za - real zb) * v2)\<^sup>2))"

definition directed_hausdorff :: "spacing \<Rightarrow> voxel set \<Rightarrow> voxel set \<Rightarrow> real" where
  "directed_hausdorff v SA SB = Max ((\<lambda>a. Min ((\<lambda>b. euclid_mm v a b) ` SB)) ` SA)"

section \<open>The label key\<close>

text \<open>A row of the ITK-SNAP label key as \<open>load_key\<close> returns it. Only the columns \<open>Index\<close>
  and \<open>Name\<close> are read by the program; the colour and visibility columns are left out.\<close>

record key_row =
  Index :: int
  Name :: string

text \<open>\<open>get_label_name\<close>: the loop runs over all rows and overwrites the name at each match.\<close>

definition get_label_name :: "int \<Rightarrow> key_row list \<Rightarrow> string" where
  "get_label_name label_idx label_key =
     fold (\<lambda>row label_name. if label_idx = Index row then Name row else label_name)
       label_key ''Unknown''"

text \<open>Lines 194 to 200 of \<open>main\<close>: the positions of the labels whose name is \<open>Unknown\<close> are
  collected, then \<open>np.delete\<close> removes the entries at these positions.\<close>

definition label_unknown :: "key_row list \<Rightarrow> int list \<Rightarrow> nat list" where
  "label_unknown label_key label_nos =
     [ll. (ll, label_no) \<leftarrow> enumerate 0 label_nos,
          get_label_name label_no label_key = ''Unknown'']"

definition np_delete :: "'a list \<Rightarrow> nat list \<Rightarrow> 'a list" where
  "np_delete xs obj = [x. (i, x) \<leftarrow> enumerate 0 xs, i \<notin> set obj]"

definition remove_unknown_labels :: "key_row list \<Rightarrow> int list \<Rightarrow> int list" where
  "remove_unknown_labels label_key label_nos =
     np_delete label_nos (label_unknown label_key label_nos)"

section \<open>Loading the label volumes\<close>

text \<open>The file system and \<open>nib.load\<close> are the input: the entries matching \<open>obs-*\<close> in sorted
  order, each with the images found in it, in sorted order. An image gives its data array,
  its voxel dimensions and its affine transform.\<close>

record ('d, 't) nii =
  get_data :: 'd
  get_zooms :: spacing
  get_affine :: 't

record ('d, 't) obs_entry =
  obs_basename :: string
  obs_isdir :: bool
  obs_images :: "('d, 't) nii list"

record ('d, 't) grand_lists =
  g_labels :: "'d list list"
  g_vox_mm :: "spacing list"
  g_vox_ul :: "real list"
  g_affine_tx :: "'t list"
  g_obs_names :: "string list"

definition init_lists :: "('d, 't) grand_lists" where
  "init_lists = \<lparr>g_labels = [], g_vox_mm = [], g_vox_ul = [], g_affine_tx = [], g_obs_names = []\<rparr>"

text \<open>One round of the inner loop over the images of an observer.\<close>

definition load_image ::
  "('d, 't) nii \<Rightarrow> 'd list \<times> ('d, 't) grand_lists \<Rightarrow> 'd list \<times> ('d, 't) grand_lists" where
  "load_image this_nii st = (case st of (obs_labels, g) \<Rightarrow>
     (let d = get_zooms this_nii
      in (obs_labels @ [get_data this_nii],
          g\<lparr>g_vox_mm := g_vox_mm g @ [d],
            g_vox_ul := g_vox_ul g @ [case d of (d0, d1, d2) \<Rightarrow> d0 * d1 * d2],
            g_affine_tx := g_affine_tx g @ [get_affine this_nii]\<rparr>)))"

text \<open>One round of the outer loop over the observer directories.\<close>

definition load_observer ::
  "('d, 't) obs_entry \<Rightarrow> ('d, 't) grand_lists \<Rightarrow> ('d, 't) grand_lists" where
  "load_observer obs_dir g =
     (if obs_isdir obs_dir
      then (let g1 = g\<lparr>g_obs_names := g_obs_names g @ [obs_basename obs_dir]\<rparr>;
                (obs_labels, g2) = fold load_image (obs_images obs_dir) ([], g1)
            in if length obs_labels > 0
               then g2\<lparr>g_labels := g_labels g2 @ [obs_labels]\<rparr>
               else g2)
      else g)"

text \<open>\<open>vox_mm.any()\<close> on the array of all voxel dimensions.\<close>

definition np_any :: "spacing list \<Rightarrow> bool" where
  "np_any vs = list_ex (\<lambda>d. case d of (d0, d1, d2) \<Rightarrow> d0 \<noteq> 0 \<or> d1 \<noteq> 0 \<or> d2 \<noteq> 0) vs"

text \<open>\<open>np.std(vox_mm, axis=1)\<close>: axis 1 of the N x 3 array runs over the three dimensions of
  one image, so there is one standard deviation per image.\<close>

definition np_std3 :: "spacing \<Rightarrow> real" where
  "np_std3 d = (case d of (d0, d1, d2) \<Rightarrow>
     (let m = (d0 + d1 + d2) / 3
      in sqrt ((\<bar>d0 - m\<bar>\<^sup>2 + \<bar>d1 - m\<bar>\<^sup>2 + \<bar>d2 - m\<bar>\<^sup>2) / 3)))"

definition np_std_axis1 :: "spacing list \<Rightarrow> real list" where
  "np_std_axis1 vs = map np_std3 vs"

text \<open>\<open>np.nonzero\<close> of a 1D array returns a tuple holding one array of positions.\<close>

definition np_nonzero1 :: "real list \<Rightarrow> nat list" where
  "np_nonzero1 xs = [i. (i, x) \<leftarrow> enumerate 0 xs, x \<noteq> 0]"

text \<open>Python's \<open>any\<close> on that one-element tuple is the truth value of the array of
  positions: False for an empty array, the truth value of the element for an array of one
  element (a position is falsy when it is 0), and a ValueError for a longer array.\<close>

definition py_any_nonzero :: "nat list \<Rightarrow> py_error + bool" where
  "py_any_nonzero idx =
     (case idx of [] \<Rightarrow> Inr False | [i] \<Rightarrow> Inr (i \<noteq> 0) | _ \<Rightarrow> Inl ValueError)"

record ('d, 't) volume_set =
  vs_labels :: "'d list list"
  vs_vox_mm :: spacing
  vs_vox_ul :: real
  vs_affine_tx :: "'t list"
  vs_obs_names :: "string list"

text \<open>Lines 166 to 180 of \<open>main\<close>. The first image's dimensions exist when \<open>any\<close> holds.\<close>

definition check_dimensions :: "('d, 't) grand_lists \<Rightarrow> py_error + ('d, 't) volume_set" where
  "check_dimensions g =
     (if \<not> np_any (g_vox_mm g) then Inl (SysExit 1)
      else case py_any_nonzero (np_nonzero1 (np_std_axis1 (g_vox_mm g))) of
             Inl e \<Rightarrow> Inl e
           | Inr True \<Rightarrow> Inl (SysExit 1)
           | Inr False \<Rightarrow>
               (case (g_vox_mm g, g_vox_ul g) of
                  (d # _, u # _) \<Rightarrow>
                    Inr \<lparr>vs_labels = g_labels g, vs_vox_mm = d, vs_vox_ul = u,
                         vs_affine_tx = g_affine_tx g, vs_obs_names = g_obs_names g\<rparr>
                | _ \<Rightarrow> Inl IndexError))"

definition load_volumes :: "('d, 't) obs_entry list \<Rightarrow> py_error + ('d, 't) volume_set" where
  "load_volumes obs_dirs = check_dimensions (fold load_observer obs_dirs init_lists)"

section \<open>The 5D label array\<close>

text \<open>\<open>labels[observer][template][x][y][z]\<close> after \<open>np.array\<close>: the numbers of observers and
  of templates, the shape of one volume and the entries.\<close>

record 'v array5 =
  n_obs :: nat
  n_tmp :: nat
  grid :: shape
  elem :: "nat \<Rightarrow> nat \<Rightarrow> voxel \<Rightarrow> 'v"

text \<open>\<open>labels == label_no\<close>, elementwise.\<close>

definition array5_eq :: "int array5 \<Rightarrow> int \<Rightarrow> bool array5" where
  "array5_eq labels label_no =
     \<lparr>n_obs = n_obs labels, n_tmp = n_tmp labels, grid = grid labels,
      elem = (\<lambda>oc t p. elem labels oc t p = label_no)\<rparr>"

text \<open>Lines 187 to 192 of \<open>main\<close>: the label list of the command line when it is given and
  not empty, else the distinct values of the array in ascending order (\<open>np.unique\<close>), cast
  to 32-bit signed integers, without the background label 0.\<close>

definition np_int32 :: "int \<Rightarrow> int" where
  "np_int32 v = sint (word_of_int v :: 32 word)"

definition np_unique :: "int array5 \<Rightarrow> int list" where
  "np_unique labels =
     sort (remdups [elem labels oc t p.
        oc \<leftarrow> [0..<n_obs labels], t \<leftarrow> [0..<n_tmp labels], p \<leftarrow> indices (grid labels)])"

definition initial_label_nos :: "int list option \<Rightarrow> int array5 \<Rightarrow> int list" where
  "initial_label_nos args_labels labels =
     (case args_labels of
        Some ls \<Rightarrow> if ls \<noteq> [] then ls
                   else filter (\<lambda>l. l \<noteq> 0) (map np_int32 (np_unique labels))
      | None \<Rightarrow> filter (\<lambda>l. l \<noteq> 0) (map np_int32 (np_unique labels)))"

section \<open>label_stats_maps\<close>

text \<open>\<open>np.mean\<close> and \<open>np.var\<close> along an axis: for one voxel, the mean and the variance of
  the list of values along that axis. On an axis of length 0 numpy returns \<open>nan\<close>.
  \<open>np.var\<close> is the mean of \<open>abs(x - x.mean())**2\<close>.\<close>

definition np_mean :: "real list \<Rightarrow> pyfloat" where
  "np_mean xs = (if xs = [] then NaN else Fin (sum_list xs / real (length xs)))"

definition np_var :: "real list \<Rightarrow> pyfloat" where
  "np_var xs = (case np_mean xs of NaN \<Rightarrow> NaN
                | Fin m \<Rightarrow> np_mean (map (\<lambda>x. \<bar>x - m\<bar>\<^sup>2) xs))"

text \<open>The mean of an axis of floats, where a \<open>nan\<close> entry makes the sum \<open>nan\<close>.\<close>

fun pyfloat_add :: "pyfloat \<Rightarrow> pyfloat \<Rightarrow> pyfloat" where
  "pyfloat_add (Fin x) (Fin y) = Fin (x + y)"
| "pyfloat_add _ _ = NaN"

definition np_mean_f :: "pyfloat list \<Rightarrow> pyfloat" where
  "np_mean_f xs =
     (if xs = [] then NaN
      else case fold (\<lambda>x acc. pyfloat_add acc x) xs (Fin 0) of
             NaN \<Rightarrow> NaN
           | Fin s \<Rightarrow> Fin (s / real (length xs)))"

text \<open>The arrays \<open>label_means\<close> and \<open>label_vars\<close>, indexed \<open>[x, y, z, lc, oc]\<close>.\<close>

type_synonym maps5 = "voxel \<Rightarrow> nat \<Rightarrow> nat \<Rightarrow> pyfloat"

text \<open>The mask of one label over the templates of one observer, at one voxel, as 0/1.\<close>

definition mask_values :: "int array5 \<Rightarrow> nat \<Rightarrow> int \<Rightarrow> voxel \<Rightarrow> real list" where
  "mask_values labels oc label_no p =
     [of_bool (elem labels oc t p = label_no). t \<leftarrow> [0..<n_tmp labels]]"

text \<open>One round of the loop over the labels: the slice \<open>[:, :, :, lc, oc]\<close> of both arrays
  is assigned.\<close>

definition add_label :: "int array5 \<Rightarrow> nat \<Rightarrow> nat \<times> int \<Rightarrow> maps5 \<times> maps5 \<Rightarrow> maps5 \<times> maps5" where
  "add_label labels oc lcl st = (case lcl of (lc, label_no) \<Rightarrow> case st of
     (label_means, label_vars) \<Rightarrow>
       ((\<lambda>p lc' oc'. if lc' = lc \<and> oc' = oc
                       then np_mean (mask_values labels oc label_no p)
                       else label_means p lc' oc'),
        (\<lambda>p lc' oc'. if lc' = lc \<and> oc' = oc
                       then np_var (mask_values labels oc label_no p)
                       else label_vars p lc' oc')))"

text \<open>The loop over the observers. \<open>labels[oc, :, :, :, :]\<close> raises an IndexError when
  \<open>oc\<close> is not below the number of observers in the array.\<close>

fun observer_loop ::
  "int array5 \<Rightarrow> int list \<Rightarrow> (nat \<times> string) list \<Rightarrow> maps5 \<times> maps5 \<Rightarrow> py_error + maps5 \<times> maps5" where
  "observer_loop labels label_nos [] st = Inr st"
| "observer_loop labels label_nos ((oc, obs_name) # rest) st =
     (if oc < n_obs labels
      then observer_loop labels label_nos rest
             (fold (add_label labels oc) (enumerate 0 label_nos) st)
      else Inl IndexError)"

record atlas_maps =
  obs_label_mean :: maps5
  obs_label_var :: maps5
  prob_atlas :: "voxel \<Rightarrow> nat \<Rightarrow> pyfloat"

text \<open>Writing the images to the atlas directory is left out: the function returns the
  arrays it writes.\<close>

definition label_stats_maps :: "int array5 \<Rightarrow> int list \<Rightarrow> string list \<Rightarrow> py_error + atlas_maps" where
  "label_stats_maps labels label_nos obs_names =
     (let zeros = (\<lambda>p lc oc. Fin 0)
      in case observer_loop labels label_nos (enumerate 0 obs_names) (zeros, zeros) of
           Inl e \<Rightarrow> Inl e
         | Inr (label_means, label_vars) \<Rightarrow>
             Inr \<lparr>obs_label_mean = label_means, obs_label_var = label_vars,
                  prob_atlas = (\<lambda>p lc. np_mean_f (map (label_means p lc) [0..<n_obs labels]))\<rparr>)"

text \<open>Reference notions for the atlas: the population variance of a list of values, and the
  number of templates of an observer that carry a label at a voxel.\<close>

definition population_variance :: "real list \<Rightarrow> real" where
  "population_variance xs =
     (\<Sum>x\<leftarrow>xs. (x - sum_list xs / real (length xs))\<^sup>2) / real (length xs)"

definition templates_labelled :: "int array5 \<Rightarrow> nat \<Rightarrow> int \<Rightarrow> voxel \<Rightarrow> nat" where
  "templates_labelled labels oc label_no p =
     card {t. t < n_tmp labels \<and> elem labels oc t p = label_no}"

section \<open>Similarity metrics within and between observers\<close>

text \<open>\<open>pool.starmap\<close> returns the results in the order of the tasks; it is modelled by
  \<open>map\<close>. The pool itself (its creation with \<open>cpu_count() - 2\<close> workers) is not modelled.\<close>

definition intra_observer_metrics ::
  "bool array5 \<Rightarrow> spacing \<Rightarrow> similarity_result list list list" where
  "intra_observer_metrics label_mask vox_mm =
     [[[similarity (grid label_mask) (elem label_mask obs ta) (elem label_mask obs tb) vox_mm.
          tb \<leftarrow> [0..<n_tmp label_mask]].
        ta \<leftarrow> [0..<n_tmp label_mask]].
      obs \<leftarrow> [0..<n_obs label_mask]]"

definition inter_observer_metrics ::
  "bool array5 \<Rightarrow> spacing \<Rightarrow> similarity_result list list list" where
  "inter_observer_metrics label_mask vox_mm =
     [[[similarity (grid label_mask) (elem label_mask obs_a tmp) (elem label_mask obs_b tmp) vox_mm.
          obs_b \<leftarrow> [0..<n_obs label_mask]].
        obs_a \<leftarrow> [0..<n_obs label_mask]].
      tmp \<leftarrow> [0..<n_tmp label_mask]]"

text \<open>A row of a metrics table: label name, label number, three positions, and the result
  of \<open>similarity\<close>.\<close>

record metrics_row =
  row_label_name :: string
  row_label_no :: int
  row_idx1 :: nat
  row_idx2 :: nat
  row_idx3 :: nat
  row_metrics :: similarity_result

text \<open>\<open>save_intra_metrics\<close> and \<open>save_inter_metrics\<close> run the same loops; the rows they
  write are returned, without the header. \<open>label_nos[idx]\<close> is in range for the lists that
  \<open>main\<close> passes, which have one entry per label.\<close>

definition save_metrics ::
  "similarity_result list list list list \<Rightarrow> int list \<Rightarrow> key_row list \<Rightarrow> metrics_row list" where
  "save_metrics metrics label_nos label_key =
     [\<lparr>row_label_name = get_label_name (label_nos ! idx) label_key,
       row_label_no = label_nos ! idx,
       row_idx1 = i1, row_idx2 = i2, row_idx3 = i3, row_metrics = m\<rparr>.
        (idx, m_idx) \<leftarrow> enumerate 0 metrics,
        (i1, m1) \<leftarrow> enumerate 0 m_idx,
        (i2, m2) \<leftarrow> enumerate 0 m1,
        (i3, m) \<leftarrow> enumerate 0 m2]"

record report =
  rep_atlas :: atlas_maps
  rep_intra :: "metrics_row list"
  rep_inter :: "metrics_row list"

text \<open>Lines 187 to 231 of \<open>main\<close>: the labels are chosen, the unknown ones removed, the
  atlas is built and the metrics are computed for each remaining label.\<close>

definition analyse ::
  "key_row list \<Rightarrow> int list option \<Rightarrow> int array5 \<Rightarrow> spacing \<Rightarrow> string list \<Rightarrow> py_error + report" where
  "analyse label_key args_labels labels vox_mm obs_names =
     (let label_nos = remove_unknown_labels label_key (initial_label_nos args_labels labels)
      in case label_stats_maps labels label_nos obs_names of
           Inl e \<Rightarrow> Inl e
         | Inr maps \<Rightarrow>
             (let intra_metrics_all =
                    map (\<lambda>label_no. intra_observer_metrics (array5_eq labels label_no) vox_mm) label_nos;
                  inter_metrics_all =
                    map (\<lambda>label_no. inter_observer_metrics (array5_eq labels label_no) vox_mm) label_nos
              in Inr \<lparr>rep_atlas = maps,
                      rep_intra = save_metrics intra_metrics_all label_nos label_key,
                      rep_inter = save_metrics inter_metrics_all label_nos label_key\<rparr>))"

section \<open>Facts about counting and the index list\<close>

lemma set_indices: "set (indices sh) = {p. in_grid sh p}"
proof (cases sh)
  case (fields nx ny nz)
  show ?thesis
    unfolding fields indices_def in_grid_def by (auto simp: image_iff)
qed

lemma in_grid_indices: "p \<in> set (indices sh) \<longleftrightarrow> in_grid sh p"
  by (simp add: set_indices)

lemma count_split: "length (filter P xs) = length (filter (\<lambda>x. P x \<and> Q x) xs) + length (filter (\<lambda>x. P x \<and> \<not> Q x) xs)"
  by (induction xs) auto

lemma count_mono: "(\<And>x. x \<in> set xs \<Longrightarrow> P x \<Longrightarrow> Q x) \<Longrightarrow> length (filter P xs) \<le> length (filter Q xs)"
  by (induction xs) auto

lemma count_zero: "length (filter P xs) = 0 \<longleftrightarrow> (\<forall>x\<in>set xs. \<not> P x)"
  by (simp add: filter_empty_conv)

lemma np_min_Min: "xs \<noteq> [] \<Longrightarrow> np_min xs = Min (set xs)"
  by (cases xs) (simp_all add: Min.set_eq_fold [symmetric])

lemma np_max_Max: "xs \<noteq> [] \<Longrightarrow> np_max xs = Max (set xs)"
  by (cases xs) (simp_all add: Max.set_eq_fold [symmetric])

lemma set_structure_offsets:
  "set structure_offsets = {-1, 0, 1} \<times> {-1, 0, 1} \<times> {-1, 0, 1}"
  by (auto simp: structure_offsets_def)

lemma set_neighbours:
  "set (neighbours (x, y, z)) =
     (\<lambda>(dx, dy, dz). (int x + dx, int y + dy, int z + dz)) ` ({-1, 0, 1} \<times> {-1, 0, 1} \<times> {-1, 0, 1})"
  by (simp add: neighbours_def set_structure_offsets)

lemma binary_erosion_iff:
  "binary_erosion sh m p \<longleftrightarrow> (\<forall>q\<in>set (neighbours p). at_or_border sh m q)"
  by (simp add: binary_erosion_def list_all_iff)

lemma eroded_subset: "binary_erosion sh m p \<Longrightarrow> in_grid sh p \<and> m p"
proof -
  assume e: "binary_erosion sh m p"
  obtain x y z where p: "p = (x, y, z)" by (cases p) auto
  obtain nx ny nz where sh: "sh = (nx, ny, nz)" by (cases sh) auto
  have "(int x, int y, int z) \<in> set (neighbours p)"
    by (simp add: set_neighbours p image_iff)
  with e have "at_or_border sh m (int x, int y, int z)"
    by (simp add: binary_erosion_def list_all_iff)
  then show ?thesis
    by (simp add: at_or_border_def sh p in_grid_def split: if_splits)
qed

lemma surface_iff: "surface_voxels sh m p \<longleftrightarrow> m p \<and> \<not> binary_erosion sh m p"
  using eroded_subset [of sh m p] by (auto simp: surface_voxels_def np_logical_xor_def)

lemma surface_nonempty:
  assumes "np_sum sh m > 0"
  shows "np_nonzero sh (surface_voxels sh m) \<noteq> []"
proof -
  obtain nx ny nz where sh: "sh = (nx, ny, nz)" by (cases sh) auto
  let ?S = "{p. in_grid sh p \<and> m p}"
  have fin: "finite ?S"
    using finite_set [of "indices sh"] by (simp add: set_indices)
  from assms have "filter m (indices sh) \<noteq> []"
    by (auto simp: np_sum_def)
  then obtain q where "q \<in> set (indices sh)" "m q"
    by (auto simp: filter_empty_conv)
  then have "q \<in> ?S" by (simp add: set_indices)
  then have ne: "?S \<noteq> {}" by blast
  define X where "X = Max (fst ` ?S)"
  have "X \<in> fst ` ?S"
    unfolding X_def using fin ne by (intro Max_in) auto
  then obtain y z where p: "in_grid sh (X, y, z)" "m (X, y, z)" by auto
  have maxi: "fst r \<le> X" if "r \<in> ?S" for r
    unfolding X_def using fin that by (intro Max_ge) auto
  have "\<not> at_or_border sh m (int X + 1, int y, int z)"
  proof
    assume a: "at_or_border sh m (int X + 1, int y, int z)"
    then have "(X + 1, y, z) \<in> ?S"
      by (auto simp: at_or_border_def sh in_grid_def nat_add_distrib split: if_splits)
    from maxi [OF this] show False by simp
  qed
  moreover have "(int X + 1, int y, int z) \<in> set (neighbours (X, y, z))"
    by (simp add: set_neighbours image_iff)
  ultimately have "\<not> binary_erosion sh m (X, y, z)"
    by (auto simp: binary_erosion_def list_all_iff)
  with p have "surface_voxels sh m (X, y, z)" "(X, y, z) \<in> set (indices sh)"
    by (simp_all add: surface_iff set_indices)
  then show ?thesis
    by (auto simp: np_nonzero_def filter_empty_conv)
qed

lemma count_and_le:
  "length (filter (\<lambda>p. A p \<and> B p) xs) \<le> length (filter A xs)"
  "length (filter (\<lambda>p. A p \<and> B p) xs) \<le> length (filter B xs)"
  by (rule count_mono; simp)+

lemma count_sum_eq:
  "length (filter A xs) + length (filter B xs) =
     2 * length (filter (\<lambda>p. A p \<and> B p) xs) +
     length (filter (\<lambda>p. A p \<and> \<not> B p) xs) + length (filter (\<lambda>p. B p \<and> \<not> A p) xs)"
  by (induction xs) auto

lemma count_full_overlap:
  "2 * length (filter (\<lambda>p. A p \<and> B p) xs) = length (filter A xs) + length (filter B xs)
     \<longleftrightarrow> (\<forall>p\<in>set xs. A p = B p)"
  unfolding count_sum_eq [of A xs B] by (auto simp: filter_empty_conv)

lemma dice_similarity:
  "dice (similarity sh A B v) =
     (if np_sum sh A = 0 \<and> np_sum sh B = 0 then NaN else Fin (dice_value sh A B))"
  by (simp add: similarity_def Let_def dice_value_def np_logical_and_def)

lemma haus_similarity:
  "haus (similarity sh A B v) =
     (if np_sum sh A = 0 \<and> np_sum sh B = 0 then NaN else hausdorff_distance sh A B v)"
  by (simp add: similarity_def Let_def)

lemma dice_value_range:
  assumes "\<not> (np_sum sh A = 0 \<and> np_sum sh B = 0)"
  shows "0 \<le> dice_value sh A B" "dice_value sh A B \<le> 1"
proof -
  have pos: "0 < real (np_sum sh A + np_sum sh B)" using assms by auto
  show "0 \<le> dice_value sh A B" by (simp add: dice_value_def)
  have "2 * np_sum sh (\<lambda>p. A p \<and> B p) \<le> np_sum sh A + np_sum sh B"
    unfolding np_sum_def using count_and_le [of A B "indices sh"] by linarith
  then have "real (2 * np_sum sh (\<lambda>p. A p \<and> B p)) \<le> real (np_sum sh A + np_sum sh B)"
    by (rule iffD2 [OF of_nat_le_iff])
  then have "2 * real (np_sum sh (\<lambda>p. A p \<and> B p)) \<le> real (np_sum sh A + np_sum sh B)"
    by simp
  then show "dice_value sh A B \<le> 1"
    using pos by (simp add: dice_value_def)
qed

lemma dice_value_one:
  assumes "\<not> (np_sum sh A = 0 \<and> np_sum sh B = 0)"
  shows "dice_value sh A B = 1 \<longleftrightarrow> (\<forall>p\<in>set (indices sh). A p = B p)"
proof -
  let ?n = "np_sum sh (\<lambda>p. A p \<and> B p)"
  have nz: "real (np_sum sh A + np_sum sh B) \<noteq> 0" using assms by auto
  have "dice_value sh A B = 1 \<longleftrightarrow> real (2 * ?n) = real (np_sum sh A + np_sum sh B)"
    unfolding dice_value_def divide_eq_1_iff using nz by simp
  also have "\<dots> \<longleftrightarrow> 2 * ?n = np_sum sh A + np_sum sh B"
    by (rule of_nat_eq_iff)
  also have "\<dots> \<longleftrightarrow> (\<forall>p\<in>set (indices sh). A p = B p)"
    unfolding np_sum_def by (rule count_full_overlap)
  finally show ?thesis .
qed

lemma dice_value_zero:
  assumes "\<not> (np_sum sh A = 0 \<and> np_sum sh B = 0)"
  shows "dice_value sh A B = 0 \<longleftrightarrow> (\<forall>p\<in>set (indices sh). \<not> (A p \<and> B p))"
proof -
  have pos: "0 < real (np_sum sh A + np_sum sh B)" using assms by auto
  have "dice_value sh A B = 0 \<longleftrightarrow> np_sum sh (\<lambda>p. A p \<and> B p) = 0"
    using pos by (simp add: dice_value_def)
  also have "\<dots> \<longleftrightarrow> (\<forall>p\<in>set (indices sh). \<not> (A p \<and> B p))"
    by (simp add: np_sum_def filter_empty_conv)
  finally show ?thesis .
qed

lemma np_sum_pos_iff: "0 < np_sum sh A \<longleftrightarrow> (\<exists>p\<in>set (indices sh). A p)"
  by (auto simp: np_sum_def filter_empty_conv)

section \<open>The overlap coefficient\<close>

text \<open>
  Claim C2. For two masks on one grid: when both voxel counts are zero, \<open>similarity\<close>
  returns \<open>nan\<close> for the overlap coefficient and for the boundary distance. Otherwise the
  overlap coefficient is \<open>2 |A \<inter> B| / (countA + countB)\<close>; this value lies between 0
  and 1, it is 1 exactly when the two masks agree on every voxel of the grid and are not
  empty, and it is 0 exactly when no voxel of the grid is in both.
\<close>

theorem similarity_overlap_coefficient:
  "(np_sum sh A = 0 \<and> np_sum sh B = 0 \<longrightarrow>
      dice (similarity sh A B v) = NaN \<and> haus (similarity sh A B v) = NaN) \<and>
   (\<not> (np_sum sh A = 0 \<and> np_sum sh B = 0) \<longrightarrow>
      (let d = 2 * real (np_sum sh (\<lambda>p. A p \<and> B p)) / real (np_sum sh A + np_sum sh B)
       in dice (similarity sh A B v) = Fin d \<and> 0 \<le> d \<and> d \<le> 1 \<and>
          (d = 1 \<longleftrightarrow> (\<forall>p\<in>set (indices sh). A p = B p) \<and> 0 < np_sum sh A) \<and>
          (d = 0 \<longleftrightarrow> (\<forall>p\<in>set (indices sh). \<not> (A p \<and> B p)))))"
proof (intro conjI impI)
  assume both: "np_sum sh A = 0 \<and> np_sum sh B = 0"
  then show "dice (similarity sh A B v) = NaN" by (simp add: dice_similarity)
  from both show "haus (similarity sh A B v) = NaN" by (simp add: haus_similarity)
next
  assume ne: "\<not> (np_sum sh A = 0 \<and> np_sum sh B = 0)"
  have same: "0 < np_sum sh A" if "\<forall>p\<in>set (indices sh). A p = B p"
  proof -
    from that have "np_sum sh A = np_sum sh B"
      unfolding np_sum_def by (intro arg_cong [where f = length] filter_cong) auto
    with ne show ?thesis by simp
  qed
  show "let d = 2 * real (np_sum sh (\<lambda>p. A p \<and> B p)) / real (np_sum sh A + np_sum sh B)
       in dice (similarity sh A B v) = Fin d \<and> 0 \<le> d \<and> d \<le> 1 \<and>
          (d = 1 \<longleftrightarrow> (\<forall>p\<in>set (indices sh). A p = B p) \<and> 0 < np_sum sh A) \<and>
          (d = 0 \<longleftrightarrow> (\<forall>p\<in>set (indices sh). \<not> (A p \<and> B p)))"
    unfolding Let_def dice_value_def [symmetric]
    using ne dice_value_range [OF ne] dice_value_one [OF ne] dice_value_zero [OF ne] same
    by (auto simp: dice_similarity)
qed

lemma indices_222:
  "indices (2, 2, 2) = [(0,0,0), (0,0,1), (0,1,0), (0,1,1), (1,0,0), (1,0,1), (1,1,0), (1,1,1)]"
  by (simp add: indices_def upt_rec)

theorem similarity_overlap_coefficient_witness:
  "\<not> (np_sum (2, 2, 2) (\<lambda>p. fst p = 0) = 0 \<and> np_sum (2, 2, 2) (\<lambda>p. True) = 0) \<and>
   dice (similarity (2, 2, 2) (\<lambda>p. fst p = 0) (\<lambda>p. True) (1, 1, 1)) = Fin (2 / 3) \<and>
   (np_sum (2, 2, 2) (\<lambda>p. False) = 0 \<and>
    dice (similarity (2, 2, 2) (\<lambda>p. False) (\<lambda>p. False) (1, 1, 1)) = NaN \<and>
    haus (similarity (2, 2, 2) (\<lambda>p. False) (\<lambda>p. False) (1, 1, 1)) = NaN)"
proof -
  have a: "np_sum (2, 2, 2) (\<lambda>p. fst p = 0) = 4" "np_sum (2, 2, 2) (\<lambda>p. True) = 8"
    "np_sum (2, 2, 2) (\<lambda>p. False) = 0"
    by (simp_all add: np_sum_def indices_222)
  show ?thesis
    using similarity_overlap_coefficient [of "(2, 2, 2)" "\<lambda>p. fst p = 0" "\<lambda>p. True" "(1, 1, 1)"]
      similarity_overlap_coefficient [of "(2, 2, 2)" "\<lambda>p. False" "\<lambda>p. False" "(1, 1, 1)"]
    by (simp add: a Let_def)
qed

end
